theory Spec2Isabelle
  imports Main "HOL-Library.AList" "HOL-Library.Multiset"
begin

section \<open>Portfolio dashboard: the data model\<close>

text \<open>
  The view component \<^verbatim>\<open>PortfolioTable\<close> holds a list of holdings, folds it into
  per-sector totals and hands the totals to a table and a pie chart.

  JavaScript numbers are kept abstract: the type parameter \<open>'n\<close> stands for
  \<^verbatim>\<open>number\<close>, and the aggregation only needs its \<open>0\<close> and \<open>+\<close>. Results that need
  more (associativity, commutativity) say so in their sort constraint; they are the
  results the source's arithmetic has only when it is exact.
\<close>

text \<open>
  Modelled from the spec: the declaration of \<^verbatim>\<open>StockData\<close> lives in
  \<^verbatim>\<open>../types/portfolio\<close>, which is not among the sources. The field names are the
  ones the column accessors and the reduction read; the type of \<^verbatim>\<open>peRatio\<close> and
  \<^verbatim>\<open>latestEarnings\<close> is not fixed by any use, so it is the parameter \<open>'x\<close>.
\<close>

record ('n, 'x) StockData =
  name :: string
  exchange :: string
  quantity :: 'n
  purchasePrice :: 'n
  cmp :: 'n
  investment :: 'n
  presentValue :: 'n
  gainLoss :: 'n
  peRatio :: 'x
  latestEarnings :: 'x
  sector :: string

text \<open>The value type of the accumulator \<^verbatim>\<open>Record<string, {...}>\<close>.\<close>

record 'n summary =
  purchasePrice :: 'n
  investment :: 'n
  presentValue :: 'n
  gainLoss :: 'n

text \<open>One element of \<^verbatim>\<open>chartData\<close>.\<close>

record 'n chartEntry =
  name :: string
  investment :: 'n
  purchasePrice :: 'n
  presentValue :: 'n
  gainLoss :: 'n

section \<open>Plain objects used as dictionaries\<close>

text \<open>
  The accumulator is the object literal \<^verbatim>\<open>{}\<close>. Its own properties are kept as an
  association list in creation order (the order matters to \<^verbatim>\<open>Object.entries\<close>).
  Its prototype is \<^verbatim>\<open>Object.prototype\<close>, so reading a property that the object does
  not own falls through to the prototype: the names below are the properties that
  \<^verbatim>\<open>Object.prototype\<close> carries (ECMAScript 20.1.3 and Annex B.2.2), each of them a
  function or, for \<^verbatim>\<open>__proto__\<close>, the prototype object itself.
\<close>

type_synonym 'v object = "(string \<times> 'v) list"

definition Object_prototype_keys :: "string list" where
  "Object_prototype_keys =
     [''constructor'', ''hasOwnProperty'', ''isPrototypeOf'', ''propertyIsEnumerable'',
      ''toLocaleString'', ''toString'', ''valueOf'', ''__proto__'',
      ''__defineGetter__'', ''__defineSetter__'', ''__lookupGetter__'',
      ''__lookupSetter__'']"

text \<open>What the expression \<^verbatim>\<open>acc[key]\<close> evaluates to.\<close>

datatype 'v property = Own 'v | Inherited | Undefined

definition get_prop :: "'v object \<Rightarrow> string \<Rightarrow> 'v property" where
  "get_prop obj key =
     (case map_of obj key of
        Some v \<Rightarrow> Own v
      | None \<Rightarrow> if key \<in> set Object_prototype_keys then Inherited else Undefined)"

text \<open>
  \<^verbatim>\<open>!acc[key]\<close>: an object or a function is truthy, \<^verbatim>\<open>undefined\<close> is falsy.
\<close>

fun falsy :: "'v property \<Rightarrow> bool" where
  "falsy (Own v) = False"
| "falsy Inherited = False"
| "falsy Undefined = True"

text \<open>
  \<^verbatim>\<open>acc[key] = v\<close>: an existing own property keeps its place, a new one is added
  last.
\<close>

definition set_prop :: "'v object \<Rightarrow> string \<Rightarrow> 'v \<Rightarrow> 'v object" where
  "set_prop obj key v = AList.update key v obj"

text \<open>
  \<^verbatim>\<open>acc[key].f += x\<close>, with the field update \<open>upd\<close>. When \<^verbatim>\<open>acc[key]\<close> is an own
  summary, that summary changes. When it is inherited, the write lands on the inherited
  object (a built-in function or \<^verbatim>\<open>Object.prototype\<close>) and \<open>acc\<close> gains nothing.
  On \<^verbatim>\<open>undefined\<close> the source would throw; the reduction never gets there
  (lemma \<open>reducer_defined\<close>).
\<close>

definition modify_prop :: "'v object \<Rightarrow> string \<Rightarrow> ('v \<Rightarrow> 'v) \<Rightarrow> 'v object" where
  "modify_prop obj key upd =
     (case get_prop obj key of
        Own v \<Rightarrow> set_prop obj key (upd v)
      | Inherited \<Rightarrow> obj
      | Undefined \<Rightarrow> obj)"

text \<open>
  \<^verbatim>\<open>Object.entries\<close> lists the own properties whose name is an array index
  (a canonical decimal numeral below \<open>2^32 - 1\<close>) first, in ascending numeric order,
  and the others after them in creation order.
\<close>

definition is_digit :: "char \<Rightarrow> bool" where
  "is_digit c = (c \<in> set ''0123456789'')"

definition digit_value :: "char \<Rightarrow> int" where
  "digit_value c = of_char c - 48"

definition numeral_value :: "string \<Rightarrow> int" where
  "numeral_value s = foldl (\<lambda>n c. 10 * n + digit_value c) 0 s"

definition is_array_index :: "string \<Rightarrow> bool" where
  "is_array_index s =
     (s \<noteq> [] \<and> list_all is_digit s \<and> (s = ''0'' \<or> hd s \<noteq> CHR ''0'')
      \<and> numeral_value s < 4294967295)"

definition Object_entries :: "'v object \<Rightarrow> (string \<times> 'v) list" where
  "Object_entries obj =
     sort_key (\<lambda>p. numeral_value (fst p)) (filter (\<lambda>p. is_array_index (fst p)) obj)
     @ filter (\<lambda>p. \<not> is_array_index (fst p)) obj"

section \<open>The sector aggregation\<close>

definition zero_summary :: "'n::zero summary" where
  "zero_summary =
     \<lparr>summary.purchasePrice = 0, summary.investment = 0,
      summary.presentValue = 0, summary.gainLoss = 0\<rparr>"

text \<open>The callback of \<^verbatim>\<open>data.reduce\<close>, statement by statement.\<close>

definition reducer ::
  "'n::{zero,plus} summary object \<Rightarrow> ('n, 'x) StockData \<Rightarrow> 'n summary object" where
  "reducer acc stock =
     (let key = StockData.sector stock;
          acc1 = (if falsy (get_prop acc key) then set_prop acc key zero_summary else acc);
          acc2 = modify_prop acc1 key
                   (\<lambda>s. s\<lparr>summary.investment :=
                            summary.investment s + StockData.investment stock\<rparr>);
          acc3 = modify_prop acc2 key
                   (\<lambda>s. s\<lparr>summary.presentValue :=
                            summary.presentValue s + StockData.presentValue stock\<rparr>);
          acc4 = modify_prop acc3 key
                   (\<lambda>s. s\<lparr>summary.purchasePrice :=
                            summary.purchasePrice s + StockData.purchasePrice stock\<rparr>);
          acc5 = modify_prop acc4 key
                   (\<lambda>s. s\<lparr>summary.gainLoss :=
                            summary.gainLoss s + StockData.gainLoss stock\<rparr>)
      in acc5)"

definition groupedBySector ::
  "('n::{zero,plus}, 'x) StockData list \<Rightarrow> 'n summary object" where
  "groupedBySector data = foldl reducer [] data"

definition chartData :: "('n::{zero,plus}, 'x) StockData list \<Rightarrow> 'n chartEntry list" where
  "chartData data =
     map (\<lambda>(sector, summary).
            \<lparr>chartEntry.name = sector,
             chartEntry.investment = summary.investment summary,
             chartEntry.purchasePrice = summary.purchasePrice summary,
             chartEntry.presentValue = summary.presentValue summary,
             chartEntry.gainLoss = summary.gainLoss summary\<rparr>)
         (Object_entries (groupedBySector data))"

section \<open>The pie chart\<close>

text \<open>
  The chart is drawn by a library; what the component decides is the element
  \<^verbatim>\<open><Pie data={chartData} dataKey="investment" nameKey="name" outerRadius={100}
  fill="#8884d8" ...>\<close>. \<open>pie_props\<close> is the props it hands over; the label function and
  the \<^verbatim>\<open>Cell\<close> children, which only label and colour, are left out.
\<close>

datatype 'n js_value = Str string | Num 'n

text \<open>
  \<^verbatim>\<open>entry[key]\<close> on an element of \<open>chartData\<close>: the five properties its literal
  defines and, as on every object literal, what \<^verbatim>\<open>Object.prototype\<close> supplies.
\<close>

definition chartEntry_get :: "'n chartEntry \<Rightarrow> string \<Rightarrow> 'n js_value property" where
  "chartEntry_get entry key =
     (if key = ''name'' then Own (Str (chartEntry.name entry))
      else if key = ''investment'' then Own (Num (chartEntry.investment entry))
      else if key = ''purchasePrice'' then Own (Num (chartEntry.purchasePrice entry))
      else if key = ''presentValue'' then Own (Num (chartEntry.presentValue entry))
      else if key = ''gainLoss'' then Own (Num (chartEntry.gainLoss entry))
      else if key \<in> set Object_prototype_keys then Inherited
      else Undefined)"

record 'n Pie_props =
  data :: "'n chartEntry list"
  dataKey :: string
  nameKey :: string
  outerRadius :: nat
  fill :: string

definition pie_props :: "('n::{zero,plus}, 'x) StockData list \<Rightarrow> 'n Pie_props" where
  "pie_props stocks =
     \<lparr>Pie_props.data = chartData stocks, dataKey = ''investment'', nameKey = ''name'',
      outerRadius = 100, fill = ''#8884d8''\<rparr>"

section \<open>The component and its host\<close>

text \<open>
  The component's state cell, the effect that polls, and as much of the host (React's
  effect lifecycle, the timer table, a clock in milliseconds, promise settlement) as
  the effect talks to. Every call that crosses the component's boundary is appended to
  \<open>calls\<close> with the time it was made.

  \<^verbatim>\<open>fetchPortfolio\<close> is imported from \<^verbatim>\<open>../lib/api\<close>; what its promise settles to is
  not decided by this component, so it arrives as the payload of a \<open>Settle\<close> event.
\<close>

text \<open>
  The phases of one component instance; what an awaited promise settles to; the one
  function that is ever handed to a timer; and the calls that are logged.
  \<open>SetInterval f ms i\<close> logs \<^verbatim>\<open>setInterval(f, ms)\<close> together with the identifier
  \<open>i\<close> it returned.
\<close>

datatype lifecycle = Created | Mounted | Unmounted

datatype ('n, 'x, 'e) settled = Fulfilled "('n, 'x) StockData list" | Rejected 'e

datatype callback = FetchAndSet

datatype ('n, 'x) call =
    FetchPortfolio
  | SetData "('n, 'x) StockData list"
  | SetInterval callback nat nat
  | ClearInterval nat

text \<open>
  An entry of the host's timer table, and the state of the whole: the component's phase
  and holdings (\<open>data\<close>), the identifier captured by the effect's closure
  (\<open>interval\<close>), the number of \<^verbatim>\<open>fetchAndSet\<close> activations suspended at their
  \<^verbatim>\<open>await\<close> (\<open>awaiting\<close>), the rejections nobody handled, the clock in milliseconds,
  the timer table, the next timer identifier, and the call log.
\<close>

record timer =
  timer_id :: nat
  handler :: callback
  delay :: nat
  due :: nat

record ('n, 'x, 'e) world =
  lifecycle :: lifecycle
  data :: "('n, 'x) StockData list"
  interval :: "nat option"
  awaiting :: nat
  unhandled :: "'e list"
  clock :: nat
  timers :: "timer list"
  next_timer_id :: nat
  calls :: "(nat \<times> ('n, 'x) call) list"

text \<open>
  Logging a call, and the call \<^verbatim>\<open>fetchPortfolio()\<close>: it starts a request and hands
  back a promise; nothing else of it is visible to the component.
\<close>

definition record_call :: "('n, 'x) call \<Rightarrow> ('n, 'x, 'e) world \<Rightarrow> ('n, 'x, 'e) world" where
  "record_call c w = w\<lparr>calls := calls w @ [(clock w, c)]\<rparr>"

definition fetchPortfolio :: "('n, 'x, 'e) world \<Rightarrow> ('n, 'x, 'e) world" where
  "fetchPortfolio w = record_call FetchPortfolio w"

text \<open>
  \<^verbatim>\<open>setData\<close>, the setter of \<^verbatim>\<open>useState<StockData[]>([])\<close>: the argument replaces the
  state of a mounted component; on an unmounted one the update is dropped.
\<close>

definition setData ::
  "('n, 'x) StockData list \<Rightarrow> ('n, 'x, 'e) world \<Rightarrow> ('n, 'x, 'e) world" where
  "setData portfolio w =
     (let w' = record_call (SetData portfolio) w
      in if lifecycle w' = Mounted then w'\<lparr>data := portfolio\<rparr> else w')"

text \<open>
  \<^verbatim>\<open>fetchAndSet\<close> is an async function. Calling it runs it up to the \<^verbatim>\<open>await\<close>;
  \<open>fetchAndSet_resume\<close> is the rest, run when the awaited promise settles. A rejection
  is rethrown at the \<^verbatim>\<open>await\<close>, so \<^verbatim>\<open>setData\<close> is skipped and the promise of
  \<^verbatim>\<open>fetchAndSet\<close> itself rejects; no caller observes that promise.
\<close>

definition fetchAndSet :: "('n, 'x, 'e) world \<Rightarrow> ('n, 'x, 'e) world" where
  "fetchAndSet w = (let w' = fetchPortfolio w in w'\<lparr>awaiting := awaiting w' + 1\<rparr>)"

definition fetchAndSet_resume ::
  "('n, 'x, 'e) settled \<Rightarrow> ('n, 'x, 'e) world \<Rightarrow> ('n, 'x, 'e) world" where
  "fetchAndSet_resume outcome w =
     (case outcome of
        Fulfilled portfolio \<Rightarrow> setData portfolio w
      | Rejected reason \<Rightarrow> w\<lparr>unhandled := unhandled w @ [reason]\<rparr>)"

text \<open>
  \<^verbatim>\<open>setInterval(f, ms)\<close> enters a timer that first falls due \<open>ms\<close> milliseconds from
  now and returns its identifier; \<^verbatim>\<open>clearInterval(i)\<close> removes the timer with that
  identifier.
\<close>

definition setInterval ::
  "callback \<Rightarrow> nat \<Rightarrow> ('n, 'x, 'e) world \<Rightarrow> nat \<times> ('n, 'x, 'e) world" where
  "setInterval f ms w =
     (let i = next_timer_id w;
          t = \<lparr>timer_id = i, handler = f, delay = ms, due = clock w + ms\<rparr>
      in (i, record_call (SetInterval f ms i)
               (w\<lparr>timers := timers w @ [t], next_timer_id := i + 1\<rparr>)))"

definition clearInterval :: "nat \<Rightarrow> ('n, 'x, 'e) world \<Rightarrow> ('n, 'x, 'e) world" where
  "clearInterval i w =
     record_call (ClearInterval i) (w\<lparr>timers := filter (\<lambda>t. timer_id t \<noteq> i) (timers w)\<rparr>)"

text \<open>
  The body of the \<^verbatim>\<open>useEffect\<close> callback, and the cleanup function it returns (which
  closes over \<open>interval\<close>).
\<close>

definition effect :: "('n, 'x, 'e) world \<Rightarrow> ('n, 'x, 'e) world" where
  "effect w =
     (let w1 = fetchAndSet w;
          (i, w2) = setInterval FetchAndSet 15000 w1
      in w2\<lparr>interval := Some i\<rparr>)"

definition cleanup :: "('n, 'x, 'e) world \<Rightarrow> ('n, 'x, 'e) world" where
  "cleanup w = (case interval w of Some i \<Rightarrow> clearInterval i w | None \<Rightarrow> w)"

text \<open>
  The dependency list is \<^verbatim>\<open>[]\<close>: the effect runs when the component mounts and its
  cleanup when the component unmounts. One instance of the component is followed from
  creation to teardown; the extra run of every effect that React's development-only
  strict mode adds is left out.
\<close>

definition mount :: "('n, 'x, 'e) world \<Rightarrow> ('n, 'x, 'e) world" where
  "mount w =
     (if lifecycle w = Created then effect (w\<lparr>lifecycle := Mounted, data := []\<rparr>) else w)"

definition unmount :: "('n, 'x, 'e) world \<Rightarrow> ('n, 'x, 'e) world" where
  "unmount w =
     (if lifecycle w = Mounted then (cleanup w)\<lparr>lifecycle := Unmounted\<rparr> else w)"

fun run_callback :: "callback \<Rightarrow> ('n, 'x, 'e) world \<Rightarrow> ('n, 'x, 'e) world" where
  "run_callback FetchAndSet w = fetchAndSet w"

text \<open>
  One millisecond passes: every interval timer that falls due runs its handler and is
  scheduled again one delay later.
\<close>

definition tick :: "('n, 'x, 'e) world \<Rightarrow> ('n, 'x, 'e) world" where
  "tick w =
     (let now = clock w + 1;
          fired = filter (\<lambda>t. due t = now) (timers w);
          w' = w\<lparr>clock := now,
                 timers := map (\<lambda>t. if due t = now then t\<lparr>due := now + delay t\<rparr> else t)
                             (timers w)\<rparr>
      in foldl (\<lambda>w t. run_callback (handler t) w) w' fired)"

text \<open>
  What can happen to the component, and a run of such events. A \<open>Settle\<close> resumes one
  suspended activation of \<^verbatim>\<open>fetchAndSet\<close>; with none suspended there is nothing to
  settle. \<open>created t0\<close> is the world at time \<open>t0\<close> before the component is mounted.
\<close>

datatype ('n, 'x, 'e) event = Mount | Unmount | Elapse nat | Settle "('n, 'x, 'e) settled"

fun step :: "('n, 'x, 'e) event \<Rightarrow> ('n, 'x, 'e) world \<Rightarrow> ('n, 'x, 'e) world" where
  "step Mount w = mount w"
| "step Unmount w = unmount w"
| "step (Elapse ms) w = (tick ^^ ms) w"
| "step (Settle outcome) w =
     (if awaiting w = 0 then w
      else fetchAndSet_resume outcome (w\<lparr>awaiting := awaiting w - 1\<rparr>))"

definition run :: "('n, 'x, 'e) event list \<Rightarrow> ('n, 'x, 'e) world \<Rightarrow> ('n, 'x, 'e) world" where
  "run es w = foldl (\<lambda>w e. step e w) w es"

definition created :: "nat \<Rightarrow> ('n, 'x, 'e) world" where
  "created t0 =
     \<lparr>lifecycle = Created, data = [], interval = None, awaiting = 0, unhandled = [],
      clock = t0, timers = [], next_timer_id = 1, calls = []\<rparr>"

subsection \<open>Observations on a run\<close>





fun resolves :: "('n, 'x, 'e) event \<Rightarrow> bool" where
  "resolves (Settle (Fulfilled portfolio)) = True"
| "resolves _ = False"

section \<open>Reference notions\<close>

text \<open>
  The notions the properties below are stated with: the holdings of one sector, the four
  additions of one reduction step taken together, field-wise addition of two totals, the
  five fields the reduction reads, and the instants of a periodic schedule.
\<close>

definition holdings_of :: "string \<Rightarrow> ('n, 'x) StockData list \<Rightarrow> ('n, 'x) StockData list" where
  "holdings_of key stocks = filter (\<lambda>h. StockData.sector h = key) stocks"

definition add_stock :: "'n::plus summary \<Rightarrow> ('n, 'x) StockData \<Rightarrow> 'n summary" where
  "add_stock s stock =
     \<lparr>summary.purchasePrice = summary.purchasePrice s + StockData.purchasePrice stock,
      summary.investment = summary.investment s + StockData.investment stock,
      summary.presentValue = summary.presentValue s + StockData.presentValue stock,
      summary.gainLoss = summary.gainLoss s + StockData.gainLoss stock\<rparr>"

definition plus_summary :: "'n::plus summary \<Rightarrow> 'n summary \<Rightarrow> 'n summary" where
  "plus_summary a b =
     \<lparr>summary.purchasePrice = summary.purchasePrice a + summary.purchasePrice b,
      summary.investment = summary.investment a + summary.investment b,
      summary.presentValue = summary.presentValue a + summary.presentValue b,
      summary.gainLoss = summary.gainLoss a + summary.gainLoss b\<rparr>"

fun merge_totals :: "'n::plus summary option \<Rightarrow> 'n summary option \<Rightarrow> 'n summary option" where
  "merge_totals None t = t"
| "merge_totals (Some a) None = Some a"
| "merge_totals (Some a) (Some b) = Some (plus_summary a b)"

definition same_aggregated_fields :: "('n, 'x) StockData \<Rightarrow> ('n, 'y) StockData \<Rightarrow> bool" where
  "same_aggregated_fields a b =
     (StockData.sector a = StockData.sector b
      \<and> StockData.purchasePrice a = StockData.purchasePrice b
      \<and> StockData.investment a = StockData.investment b
      \<and> StockData.presentValue a = StockData.presentValue b
      \<and> StockData.gainLoss a = StockData.gainLoss b)"






section \<open>JavaScript numbers\<close>

text \<open>
  The aggregation is defined for any number type with \<open>0\<close> and \<open>+\<close>. \<open>double\<close> is
  the part of JavaScript's \<^verbatim>\<open>number\<close> that sums of whole amounts stay in: the
  integers, the two infinities and \<^verbatim>\<open>NaN\<close>, with the addition of IEEE 754. The sum of
  two integers is their exact sum rounded to 53 significant bits, ties to the even
  significand (\<open>round53\<close>; \<open>excess m\<close> is the number of low bits of a magnitude \<open>m\<close>
  that do not fit), and an infinity when the rounded sum reaches \<open>2^1024\<close>. Fractions
  and the negative zero are left out, and \<open>Finite n\<close> is meant for an \<open>n\<close> that is its own
  rounding.
\<close>

function excess :: "int \<Rightarrow> nat" where
  "excess m = (if m < 9007199254740992 then 0 else Suc (excess (m div 2)))"
  by pat_completeness auto
termination
  by (relation "measure nat") auto

definition round53 :: "int \<Rightarrow> int" where
  "round53 x =
     (let m = \<bar>x\<bar>; u = 2 ^ excess m; q = m div u; r = m mod u;
          q' = (if u < 2 * r \<or> (2 * r = u \<and> odd q) then q + 1 else q)
      in sgn x * (q' * u))"

datatype double = Finite int | Infinity | NegInfinity | NaN

definition overflow :: "int \<Rightarrow> double" where
  "overflow x =
     (if 2 ^ 1024 \<le> x then Infinity else if x \<le> - (2 ^ 1024) then NegInfinity else Finite x)"

fun add_double :: "double \<Rightarrow> double \<Rightarrow> double" where
  "add_double (Finite a) (Finite b) = overflow (round53 (a + b))"
| "add_double NaN y = NaN"
| "add_double x NaN = NaN"
| "add_double Infinity NegInfinity = NaN"
| "add_double NegInfinity Infinity = NaN"
| "add_double Infinity y = Infinity"
| "add_double x Infinity = Infinity"
| "add_double NegInfinity y = NegInfinity"
| "add_double x NegInfinity = NegInfinity"

instantiation double :: "{zero, plus}"
begin

definition zero_double :: double where
  "zero_double = Finite 0"

definition plus_double :: "double \<Rightarrow> double \<Rightarrow> double" where
  "plus_double x y = add_double x y"

instance ..

end

section \<open>Example data\<close>

text \<open>
  A holding with its derived fields (investment, present value, gain/loss) computed from
  quantity, purchase price and current price, and a small portfolio with two holdings in
  one sector and two sectors that differ only in case.
\<close>

definition example_holding ::
  "string \<Rightarrow> string \<Rightarrow> int \<Rightarrow> int \<Rightarrow> int \<Rightarrow> (int, string) StockData" where
  "example_holding nm sec qty price current =
     \<lparr>StockData.name = nm, exchange = ''NSE'', quantity = qty,
      StockData.purchasePrice = price, cmp = current,
      StockData.investment = price * qty, StockData.presentValue = current * qty,
      StockData.gainLoss = current * qty - price * qty,
      peRatio = ''N/A'', latestEarnings = ''N/A'', sector = sec\<rparr>"

definition example_portfolio :: "(int, string) StockData list" where
  "example_portfolio =
     [example_holding ''HDFC Bank'' ''Financials'' 10 1500 1600,
      example_holding ''Infosys'' ''Tech'' 5 1400 1350,
      example_holding ''ICICI Bank'' ''Financials'' 20 900 1000,
      example_holding ''Wipro'' ''tech'' 8 400 450]"

text \<open>
  Holdings in \<open>double\<close>, of one share bought and still valued at \<open>price\<close>, and a
  portfolio whose first amount is \<open>2^53\<close>, where adding \<open>1\<close> is lost to rounding.
\<close>

definition double_holding :: "string \<Rightarrow> string \<Rightarrow> int \<Rightarrow> (double, string) StockData" where
  "double_holding nm sec price =
     \<lparr>StockData.name = nm, exchange = ''NSE'', quantity = Finite 1,
      StockData.purchasePrice = Finite price, cmp = Finite price,
      StockData.investment = Finite price, StockData.presentValue = Finite price,
      StockData.gainLoss = Finite 0,
      peRatio = ''N/A'', latestEarnings = ''N/A'', sector = sec\<rparr>"

definition rounding_portfolio :: "(double, string) StockData list" where
  "rounding_portfolio =
     [double_holding ''Alpha'' ''Tech'' 9007199254740992,
      double_holding ''Beta'' ''Tech'' 1,
      double_holding ''Gamma'' ''Tech'' 1]"

section \<open>One step of the reduction\<close>

lemma get_prop_Own: "map_of obj key = Some v \<Longrightarrow> get_prop obj key = Own v"
  by (simp add: get_prop_def)

lemma get_prop_set_prop: "get_prop (set_prop obj key v) key = Own v"
  by (simp add: get_prop_def set_prop_def update_conv')

text \<open>
  After the guard \<^verbatim>\<open>if (!acc[stock.sector]) { ... }\<close> the property is never
  \<^verbatim>\<open>undefined\<close>, and the four updates keep it so: the reduction does not throw.
\<close>

lemma reducer_defined:
  "get_prop (if falsy (get_prop acc key) then set_prop acc key v else acc) key \<noteq> Undefined"
  by (cases "get_prop acc key") (simp_all add: get_prop_set_prop)

lemma modify_prop_defined:
  "get_prop obj key \<noteq> Undefined \<Longrightarrow> get_prop (modify_prop obj key upd) key \<noteq> Undefined"
  by (cases "get_prop obj key") (simp_all add: modify_prop_def get_prop_set_prop)

lemma modify_prop_Own:
  "map_of obj key = Some v \<Longrightarrow> modify_prop obj key upd = set_prop obj key (upd v)"
  by (simp add: modify_prop_def get_prop_Own)

lemma modify_prop_set_prop:
  "modify_prop (set_prop obj key v) key upd = set_prop obj key (upd v)"
  by (simp add: modify_prop_def get_prop_set_prop) (simp add: set_prop_def)

lemma modify_prop_Inherited:
  "map_of obj key = None \<Longrightarrow> key \<in> set Object_prototype_keys \<Longrightarrow> modify_prop obj key upd = obj"
  by (simp add: modify_prop_def get_prop_def)

lemma four_updates:
  "s\<lparr>summary.investment := summary.investment s + StockData.investment stock,
     summary.presentValue := summary.presentValue s + StockData.presentValue stock,
     summary.purchasePrice := summary.purchasePrice s + StockData.purchasePrice stock,
     summary.gainLoss := summary.gainLoss s + StockData.gainLoss stock\<rparr> = add_stock s stock"
  by (simp add: add_stock_def)

lemma set_prop_new:
  "map_of obj key = None \<Longrightarrow> set_prop obj key v = obj @ [(key, v)]"
  unfolding set_prop_def by (induction obj) (auto split: if_splits)

text \<open>
  The three ways a step can go: the sector already has a summary; the sector is a name
  that \<^verbatim>\<open>Object.prototype\<close> supplies, so the guard sees a truthy value, creates
  nothing, and the additions are lost to the accumulator; the sector is new.
\<close>

lemma reducer_Own:
  assumes "map_of acc (StockData.sector stock) = Some s"
  shows "reducer acc stock = set_prop acc (StockData.sector stock) (add_stock s stock)"
proof -
  have "get_prop acc (StockData.sector stock) = Own s"
    using assms by (rule get_prop_Own)
  then show ?thesis
    using assms
    by (simp add: reducer_def Let_def modify_prop_Own modify_prop_set_prop four_updates)
qed

lemma reducer_Inherited:
  assumes "map_of acc (StockData.sector stock) = None"
    and "StockData.sector stock \<in> set Object_prototype_keys"
  shows "reducer acc stock = acc"
proof -
  have "get_prop acc (StockData.sector stock) = Inherited"
    using assms by (simp add: get_prop_def)
  then show ?thesis
    using assms by (simp add: reducer_def Let_def modify_prop_Inherited)
qed

lemma reducer_Undefined:
  assumes "map_of acc (StockData.sector stock) = None"
    and "StockData.sector stock \<notin> set Object_prototype_keys"
  shows "reducer acc stock = acc @ [(StockData.sector stock, add_stock zero_summary stock)]"
proof -
  have "get_prop acc (StockData.sector stock) = Undefined"
    using assms by (simp add: get_prop_def)
  then have "reducer acc stock
      = set_prop acc (StockData.sector stock) (add_stock zero_summary stock)"
    by (simp add: reducer_def Let_def modify_prop_set_prop four_updates)
  then show ?thesis
    using assms(1) by (simp add: set_prop_new)
qed

lemma map_of_reducer:
  "map_of (reducer acc stock) key =
     (if key = StockData.sector stock
      then (case map_of acc key of
              Some s \<Rightarrow> Some (add_stock s stock)
            | None \<Rightarrow> if key \<in> set Object_prototype_keys then None
                      else Some (add_stock zero_summary stock))
      else map_of acc key)"
proof (cases "map_of acc (StockData.sector stock)")
  case (Some s)
  then show ?thesis
    by (simp add: reducer_Own set_prop_def update_conv')
next
  case None
  show ?thesis
  proof (cases "StockData.sector stock \<in> set Object_prototype_keys")
    case True
    with None show ?thesis by (simp add: reducer_Inherited)
  next
    case False
    with None show ?thesis
      by (auto simp add: reducer_Undefined map_of_append map_add_def split: option.splits)
  qed
qed

section \<open>The whole reduction\<close>

lemma map_of_foldl_reducer:
  "map_of (foldl reducer acc stocks) key =
     (case map_of acc key of
        Some s \<Rightarrow> Some (foldl add_stock s (holdings_of key stocks))
      | None \<Rightarrow>
          if key \<in> set Object_prototype_keys \<or> holdings_of key stocks = [] then None
          else Some (foldl add_stock zero_summary (holdings_of key stocks)))"
proof (induction stocks arbitrary: acc)
  case Nil
  show ?case by (simp add: holdings_of_def split: option.splits)
next
  case (Cons stock stocks)
  show ?case
    by (simp add: Cons.IH map_of_reducer holdings_of_def split: option.splits)
qed

lemma map_of_groupedBySector:
  "map_of (groupedBySector stocks) key =
     (if key \<in> set Object_prototype_keys \<or> holdings_of key stocks = [] then None
      else Some (foldl add_stock zero_summary (holdings_of key stocks)))"
  by (simp add: groupedBySector_def map_of_foldl_reducer)

lemma distinct_reducer:
  "distinct (map fst acc) \<Longrightarrow> distinct (map fst (reducer acc stock))"
proof (cases "map_of acc (StockData.sector stock)")
  case (Some s)
  assume "distinct (map fst acc)"
  with Some show ?thesis
    by (simp add: reducer_Own set_prop_def distinct_update)
next
  case None
  assume d: "distinct (map fst acc)"
  show ?thesis
  proof (cases "StockData.sector stock \<in> set Object_prototype_keys")
    case True
    with None d show ?thesis by (simp add: reducer_Inherited)
  next
    case False
    from None have "StockData.sector stock \<notin> fst ` set acc"
      by (simp add: map_of_eq_None_iff)
    with None False d show ?thesis by (simp add: reducer_Undefined)
  qed
qed

lemma distinct_foldl_reducer:
  "distinct (map fst acc) \<Longrightarrow> distinct (map fst (foldl reducer acc stocks))"
  by (induction stocks arbitrary: acc) (simp_all add: distinct_reducer)

lemma distinct_groupedBySector: "distinct (map fst (groupedBySector stocks))"
  by (simp add: groupedBySector_def distinct_foldl_reducer)

text \<open>
  The keys of the result are the sectors of the input, except those that are names of
  properties of \<^verbatim>\<open>Object.prototype\<close>.
\<close>

lemma keys_groupedBySector:
  "fst ` set (groupedBySector stocks)
     = StockData.sector ` set stocks - set Object_prototype_keys"
proof -
  have "key \<in> fst ` set (groupedBySector stocks)
          \<longleftrightarrow> key \<in> StockData.sector ` set stocks - set Object_prototype_keys" for key
  proof -
    have "key \<in> fst ` set (groupedBySector stocks)
            \<longleftrightarrow> map_of (groupedBySector stocks) key \<noteq> None"
      by (simp add: map_of_eq_None_iff)
    also have "\<dots> \<longleftrightarrow> key \<notin> set Object_prototype_keys \<and> holdings_of key stocks \<noteq> []"
      by (simp add: map_of_groupedBySector)
    also have "\<dots> \<longleftrightarrow> key \<in> StockData.sector ` set stocks - set Object_prototype_keys"
      by (auto simp: holdings_of_def filter_empty_conv)
    finally show ?thesis .
  qed
  then show ?thesis by blast
qed

lemma in_groupedBySector_iff:
  "(key, totals) \<in> set (groupedBySector stocks)
     \<longleftrightarrow> map_of (groupedBySector stocks) key = Some totals"
  using distinct_groupedBySector [of stocks] by (auto dest: map_of_SomeD)

text \<open>
  Holdings whose sector is not such a name are summed under the same key exactly when
  their sector strings are equal: the key is the string as it stands.
\<close>

lemma groupedBySector_same_group_iff:
  assumes "a \<in> set stocks" and "b \<in> set stocks"
    and "StockData.sector a \<notin> set Object_prototype_keys"
  shows "(\<exists>key totals. (key, totals) \<in> set (groupedBySector stocks)
            \<and> a \<in> set (holdings_of key stocks) \<and> b \<in> set (holdings_of key stocks))
         \<longleftrightarrow> StockData.sector a = StockData.sector b"
proof
  assume "\<exists>key totals. (key, totals) \<in> set (groupedBySector stocks)
            \<and> a \<in> set (holdings_of key stocks) \<and> b \<in> set (holdings_of key stocks)"
  then show "StockData.sector a = StockData.sector b"
    by (auto simp: holdings_of_def)
next
  assume eq: "StockData.sector a = StockData.sector b"
  have "StockData.sector a \<in> fst ` set (groupedBySector stocks)"
    using assms by (simp add: keys_groupedBySector)
  then obtain totals where "(StockData.sector a, totals) \<in> set (groupedBySector stocks)"
    by auto
  with assms(1,2) eq
  show "\<exists>key totals. (key, totals) \<in> set (groupedBySector stocks)
            \<and> a \<in> set (holdings_of key stocks) \<and> b \<in> set (holdings_of key stocks)"
    by (auto simp: holdings_of_def)
qed

lemma set_Object_entries: "set (Object_entries obj) = set obj"
  by (auto simp: Object_entries_def)

lemma distinct_Object_entries:
  "distinct (map fst obj) \<Longrightarrow> distinct (map fst (Object_entries obj))"
proof -
  assume d: "distinct (map fst obj)"
  have "mset (Object_entries obj) = mset obj"
    by (simp add: Object_entries_def)
  then have "mset (map fst (Object_entries obj)) = mset (map fst obj)"
    by simp
  then show ?thesis
    using d by (metis mset_eq_imp_distinct_iff)
qed

lemma foldl_add_stock_fields:
  "summary.purchasePrice (foldl add_stock s hs)
     = foldl (+) (summary.purchasePrice s) (map StockData.purchasePrice hs)"
  "summary.investment (foldl add_stock s hs)
     = foldl (+) (summary.investment s) (map StockData.investment hs)"
  "summary.presentValue (foldl add_stock s hs)
     = foldl (+) (summary.presentValue s) (map StockData.presentValue hs)"
  "summary.gainLoss (foldl add_stock s hs)
     = foldl (+) (summary.gainLoss s) (map StockData.gainLoss hs)"
  by (induction hs arbitrary: s; simp add: add_stock_def)+

lemma foldl_plus_sum_list: "foldl (+) a ys = a + sum_list (ys :: 'a::monoid_add list)"
  by (induction ys arbitrary: a) (simp_all add: add.assoc)

text \<open>
  With nothing assumed of \<open>+\<close> and \<open>0\<close>, each total is the left-to-right accumulation
  over the sector's holdings, started at \<open>0\<close>.
\<close>

lemma groupedBySector_in_order:
  assumes "(key, totals) \<in> set (groupedBySector stocks)"
  shows "totals = foldl add_stock zero_summary (holdings_of key stocks)"
  using assms by (simp add: in_groupedBySector_iff map_of_groupedBySector split: if_splits)

text \<open>
  Where addition is associative with unit \<open>0\<close>, that accumulation is \<open>sum_list\<close>.
\<close>

lemma groupedBySector_sum_list:
  fixes stocks :: "('n::monoid_add, 'x) StockData list"
  assumes "(key, totals) \<in> set (groupedBySector stocks)"
  shows "summary.purchasePrice totals = sum_list (map StockData.purchasePrice (holdings_of key stocks))"
    and "summary.investment totals = sum_list (map StockData.investment (holdings_of key stocks))"
    and "summary.presentValue totals = sum_list (map StockData.presentValue (holdings_of key stocks))"
    and "summary.gainLoss totals = sum_list (map StockData.gainLoss (holdings_of key stocks))"
  using groupedBySector_in_order [OF assms]
  by (simp_all add: foldl_add_stock_fields foldl_plus_sum_list zero_summary_def)

text \<open>
  Claim C1. For every list of holdings and every sector key of the aggregation output,
  each of the four totals (purchase price, investment, present value, gain/loss) is the
  sum of that field over exactly the holdings of the input whose sector is that key:
  the sum the code forms, from \<open>0\<close>, in the order of the input. Nothing is assumed of
  the numbers but that they have \<open>0\<close> and \<open>+\<close>, so the statement holds of floating
  point as well as of exact arithmetic.
\<close>

theorem groupedBySector_sums:
  fixes stocks :: "('n::{zero,plus}, 'x) StockData list"
  assumes "(key, totals) \<in> set (groupedBySector stocks)"
  shows "summary.purchasePrice totals
           = foldl (+) 0 (map StockData.purchasePrice
                            (filter (\<lambda>h. StockData.sector h = key) stocks))
       \<and> summary.investment totals
           = foldl (+) 0 (map StockData.investment
                            (filter (\<lambda>h. StockData.sector h = key) stocks))
       \<and> summary.presentValue totals
           = foldl (+) 0 (map StockData.presentValue
                            (filter (\<lambda>h. StockData.sector h = key) stocks))
       \<and> summary.gainLoss totals
           = foldl (+) 0 (map StockData.gainLoss
                            (filter (\<lambda>h. StockData.sector h = key) stocks))"
proof -
  have "totals = foldl add_stock zero_summary (holdings_of key stocks)"
    using assms by (rule groupedBySector_in_order)
  then show ?thesis
    by (simp add: foldl_add_stock_fields zero_summary_def holdings_of_def)
qed

theorem groupedBySector_sums_witness:
  "(''Financials'',
      \<lparr>summary.purchasePrice = 2400, summary.investment = 33000,
       summary.presentValue = 36000, summary.gainLoss = 3000\<rparr>)
     \<in> set (groupedBySector example_portfolio)
   \<and> foldl (+) 0 (map StockData.investment
         (filter (\<lambda>h. StockData.sector h = ''Financials'') example_portfolio)) = 33000"
proof -
  have m: "(''Financials'',
      \<lparr>summary.purchasePrice = 2400, summary.investment = 33000,
       summary.presentValue = 36000, summary.gainLoss = (3000::int)\<rparr>)
     \<in> set (groupedBySector example_portfolio)"
    by code_simp
  have "foldl (+) 0 (map StockData.investment
         (filter (\<lambda>h. StockData.sector h = ''Financials'') example_portfolio)) = 33000"
    using groupedBySector_sums [OF m, THEN conjunct2, THEN conjunct1, symmetric]
    by (simp only: summary.select_convs)
  with m show ?thesis by blast
qed

text \<open>
  In \<open>double\<close> the accumulation rounds at every step: three holdings of one sector
  with the amounts \<open>2^53\<close>, \<open>1\<close>, \<open>1\<close> total \<open>2^53\<close>.
\<close>

lemma groupedBySector_rounding_portfolio:
  "groupedBySector rounding_portfolio
     = [(''Tech'',
         \<lparr>summary.purchasePrice = Finite 9007199254740992,
          summary.investment = Finite 9007199254740992,
          summary.presentValue = Finite 9007199254740992,
          summary.gainLoss = Finite 0\<rparr>)]"
  by code_simp

text \<open>
  Claim C2. The set of sector keys of the aggregation output is meant to equal the set
  of distinct sector values of the input. The code departs from this on a holding whose
  sector is \<^verbatim>\<open>constructor\<close>: \<^verbatim>\<open>acc["constructor"]\<close> is the inherited function
  \<^verbatim>\<open>Object\<close>, which is truthy, so no summary is created and the output has no key at
  all, while the input has that one sector.
\<close>

theorem groupedBySector_misses_inherited_name:
  "StockData.sector ` set [example_holding ''Acme'' ''constructor'' 3 100 120] = {''constructor''}
   \<and> fst ` set (Object_entries
         (groupedBySector [example_holding ''Acme'' ''constructor'' 3 100 120])) = {}"
  by (simp add: example_holding_def groupedBySector_def reducer_Inherited
        Object_prototype_keys_def Object_entries_def)

text \<open>
  Claim C3. Two holdings are meant to contribute to the same group exactly when their
  sector strings are equal. The code departs from this on two holdings that both have
  the sector \<^verbatim>\<open>toString\<close>: their sector strings are equal, and the output has no group
  for either of them.
\<close>

theorem groupedBySector_equal_sectors_no_group:
  "StockData.sector (example_holding ''Acme'' ''toString'' 3 100 120)
     = StockData.sector (example_holding ''Apex'' ''toString'' 1 50 40)
   \<and> groupedBySector [example_holding ''Acme'' ''toString'' 3 100 120,
                       example_holding ''Apex'' ''toString'' 1 50 40] = []"
  by (simp add: example_holding_def groupedBySector_def reducer_Inherited
        Object_prototype_keys_def)

section \<open>The chart data\<close>

lemma chartData_names:
  "map chartEntry.name (chartData stocks) = map fst (Object_entries (groupedBySector stocks))"
  by (simp add: chartData_def case_prod_beta comp_def)

text \<open>
  Claim C6. For every list of holdings the chart data has exactly one entry per sector
  key of the aggregation output (the names are distinct and are exactly those keys) and
  the entry's investment is that sector's aggregated investment; the pie is handed the
  chart data with \<^verbatim>\<open>investment\<close> as its data key and \<^verbatim>\<open>name\<close> as its name key, and on
  every entry these two keys read the entry's investment and its sector.
\<close>

theorem chartData_one_entry_per_sector:
  "distinct (map chartEntry.name (chartData stocks))
   \<and> set (map chartEntry.name (chartData stocks)) = fst ` set (groupedBySector stocks)
   \<and> (\<forall>entry \<in> set (chartData stocks).
         \<exists>totals. (chartEntry.name entry, totals) \<in> set (groupedBySector stocks)
                  \<and> chartEntry.investment entry = summary.investment totals)
   \<and> Pie_props.data (pie_props stocks) = chartData stocks
   \<and> dataKey (pie_props stocks) = ''investment''
   \<and> nameKey (pie_props stocks) = ''name''
   \<and> (\<forall>entry \<in> set (chartData stocks).
         chartEntry_get entry (dataKey (pie_props stocks))
           = Own (Num (chartEntry.investment entry))
         \<and> chartEntry_get entry (nameKey (pie_props stocks))
           = Own (Str (chartEntry.name entry)))"
proof -
  have "distinct (map chartEntry.name (chartData stocks))"
    by (simp add: chartData_names distinct_Object_entries distinct_groupedBySector)
  moreover have "set (map chartEntry.name (chartData stocks)) = fst ` set (groupedBySector stocks)"
    by (simp add: chartData_names set_Object_entries)
  moreover have "\<forall>entry \<in> set (chartData stocks).
         \<exists>totals. (chartEntry.name entry, totals) \<in> set (groupedBySector stocks)
                  \<and> chartEntry.investment entry = summary.investment totals"
    by (auto simp: chartData_def set_Object_entries)
  moreover have "Pie_props.data (pie_props stocks) = chartData stocks"
    and "dataKey (pie_props stocks) = ''investment''"
    and "nameKey (pie_props stocks) = ''name''"
    by (simp_all add: pie_props_def)
  moreover have "\<forall>entry \<in> set (chartData stocks).
         chartEntry_get entry (dataKey (pie_props stocks))
           = Own (Num (chartEntry.investment entry))
         \<and> chartEntry_get entry (nameKey (pie_props stocks))
           = Own (Str (chartEntry.name entry))"
    by (simp add: pie_props_def chartEntry_get_def)
  ultimately show ?thesis by blast
qed

theorem chartData_one_entry_per_sector_witness:
  "\<lparr>chartEntry.name = ''Tech'', chartEntry.investment = 7000,
     chartEntry.purchasePrice = 1400, chartEntry.presentValue = 6750,
     chartEntry.gainLoss = - 250\<rparr> \<in> set (chartData example_portfolio)
   \<and> (\<exists>totals. (''Tech'', totals) \<in> set (groupedBySector example_portfolio)
                \<and> summary.investment totals = 7000)
   \<and> chartEntry_get
         \<lparr>chartEntry.name = ''Tech'', chartEntry.investment = (7000::int),
           chartEntry.purchasePrice = 1400, chartEntry.presentValue = 6750,
           chartEntry.gainLoss = - 250\<rparr>
         (dataKey (pie_props example_portfolio)) = Own (Num 7000)"
proof -
  have m: "\<lparr>chartEntry.name = ''Tech'', chartEntry.investment = (7000::int),
     chartEntry.purchasePrice = 1400, chartEntry.presentValue = 6750,
     chartEntry.gainLoss = - 250\<rparr> \<in> set (chartData example_portfolio)"
    by code_simp
  note t = chartData_one_entry_per_sector [of example_portfolio]
  from t have "\<forall>entry \<in> set (chartData example_portfolio).
         \<exists>totals. (chartEntry.name entry, totals) \<in> set (groupedBySector example_portfolio)
                  \<and> chartEntry.investment entry = summary.investment totals"
    by (elim conjE)
  from bspec [OF this m]
  have g: "\<exists>totals. (''Tech'', totals) \<in> set (groupedBySector example_portfolio)
                \<and> summary.investment totals = 7000"
    by (simp add: eq_commute)
  from t have "\<forall>entry \<in> set (chartData example_portfolio).
         chartEntry_get entry (dataKey (pie_props example_portfolio))
           = Own (Num (chartEntry.investment entry))
         \<and> chartEntry_get entry (nameKey (pie_props example_portfolio))
           = Own (Str (chartEntry.name entry))"
    by (elim conjE)
  from bspec [OF this m]
  have k: "chartEntry_get
         \<lparr>chartEntry.name = ''Tech'', chartEntry.investment = (7000::int),
           chartEntry.purchasePrice = 1400, chartEntry.presentValue = 6750,
           chartEntry.gainLoss = - 250\<rparr>
         (dataKey (pie_props example_portfolio)) = Own (Num 7000)"
    by (simp only: chartEntry.select_convs)
  from m g k show ?thesis
    by (intro conjI)
qed

section \<open>Algebra of the aggregation\<close>

lemma plus_summary_zero: "plus_summary (zero_summary :: 'n::monoid_add summary) b = b"
  by (simp add: plus_summary_def zero_summary_def)

lemma add_stock_plus_summary:
  "add_stock (plus_summary a b) h = plus_summary a (add_stock (b :: 'n::monoid_add summary) h)"
  by (simp add: add_stock_def plus_summary_def add.assoc)

lemma foldl_add_stock_plus_summary:
  "foldl add_stock (plus_summary a b) hs
     = plus_summary a (foldl add_stock (b :: 'n::monoid_add summary) hs)"
  by (induction hs arbitrary: b) (simp_all add: add_stock_plus_summary)

lemma plus_summary_zero_right: "plus_summary a (zero_summary :: 'n::monoid_add summary) = a"
  by (simp add: plus_summary_def zero_summary_def)

lemma foldl_add_stock_continue:
  "foldl add_stock (foldl add_stock (zero_summary :: 'n::monoid_add summary) hs) hs'
     = plus_summary (foldl add_stock zero_summary hs) (foldl add_stock zero_summary hs')"
  using foldl_add_stock_plus_summary [of "foldl add_stock zero_summary hs" zero_summary hs']
  by (simp add: plus_summary_zero_right)

lemma groupedBySector_append:
  fixes xs ys :: "('n::monoid_add, 'x) StockData list"
  shows "map_of (groupedBySector (xs @ ys)) key
     = merge_totals (map_of (groupedBySector xs) key) (map_of (groupedBySector ys) key)"
proof -
  have split: "holdings_of key (xs @ ys) = holdings_of key xs @ holdings_of key ys"
    by (simp add: holdings_of_def)
  show ?thesis
  proof (cases "key \<in> set Object_prototype_keys")
    case True
    then show ?thesis by (simp add: map_of_groupedBySector)
  next
    case False
    show ?thesis
    proof (cases "holdings_of key xs = []")
      case True
      with False show ?thesis by (simp add: map_of_groupedBySector split)
    next
      case xs: False
      show ?thesis
      proof (cases "holdings_of key ys = []")
        case True
        with False xs show ?thesis by (simp add: map_of_groupedBySector split)
      next
        case ys: False
        with False xs show ?thesis
          by (simp add: map_of_groupedBySector split foldl_add_stock_continue)
      qed
    qed
  qed
qed

lemma foldl_add_stock_mset:
  fixes hs hs' :: "('n::comm_monoid_add, 'x) StockData list"
  assumes "mset hs = mset hs'"
  shows "foldl add_stock zero_summary hs = foldl add_stock zero_summary hs'"
proof -
  have perm: "sum_list (map f hs) = sum_list (map f hs')" for f :: "('n, 'x) StockData \<Rightarrow> 'n"
  proof -
    have "mset (map f hs) = mset (map f hs')"
      using assms by simp
    then show ?thesis
      by (metis sum_mset_sum_list)
  qed
  show ?thesis
    by (rule summary.equality)
       (simp_all add: foldl_add_stock_fields foldl_plus_sum_list perm)
qed

lemma groupedBySector_mset:
  fixes xs zs :: "('n::comm_monoid_add, 'x) StockData list"
  assumes "mset xs = mset zs"
  shows "map_of (groupedBySector xs) = map_of (groupedBySector zs)"
proof
  fix key
  have m: "mset (holdings_of key xs) = mset (holdings_of key zs)"
    using assms by (simp add: holdings_of_def)
  then have "holdings_of key xs = [] \<longleftrightarrow> holdings_of key zs = []"
    by (metis mset_zero_iff)
  with foldl_add_stock_mset [OF m]
  show "map_of (groupedBySector xs) key = map_of (groupedBySector zs) key"
    by (simp add: map_of_groupedBySector)
qed

text \<open>
  In floating point the law of concatenation fails. With the amounts \<open>2^53\<close>, \<open>1\<close>,
  \<open>1\<close> in one sector, aggregating the whole list adds \<open>1\<close> twice to \<open>2^53\<close> and loses
  it twice, so the total is \<open>2^53\<close>; aggregating the first holding alone and the other
  two alone gives \<open>2^53\<close> and \<open>2\<close>, whose sum \<open>2^53 + 2\<close> is a double.
\<close>

theorem groupedBySector_not_homomorphism:
  "map_of (groupedBySector
             ([double_holding ''Alpha'' ''Tech'' 9007199254740992]
              @ [double_holding ''Beta'' ''Tech'' 1, double_holding ''Gamma'' ''Tech'' 1]))
          ''Tech''
     \<noteq> merge_totals
         (map_of (groupedBySector [double_holding ''Alpha'' ''Tech'' 9007199254740992]) ''Tech'')
         (map_of (groupedBySector
                    [double_holding ''Beta'' ''Tech'' 1, double_holding ''Gamma'' ''Tech'' 1])
                 ''Tech'')"
  by code_simp

text \<open>
  Claim C8, amended. Over exact arithmetic the aggregation is a list homomorphism:
  where addition is associative with unit \<open>0\<close>, for every sector key the totals of
  \<open>xs @ ys\<close> are the field-wise sum of the totals of \<open>xs\<close> and of \<open>ys\<close> (a key absent on
  one side contributes nothing); and where addition is also commutative, the totals of
  every key are the same for two lists that are permutations of each other.
\<close>

theorem groupedBySector_homomorphism:
  fixes xs ys :: "('n::monoid_add, 'x) StockData list"
    and ps qs :: "('m::comm_monoid_add, 'y) StockData list"
  shows "map_of (groupedBySector (xs @ ys)) key
           = merge_totals (map_of (groupedBySector xs) key) (map_of (groupedBySector ys) key)
         \<and> (mset ps = mset qs \<longrightarrow> map_of (groupedBySector ps) = map_of (groupedBySector qs))"
  using groupedBySector_append [of xs ys key] groupedBySector_mset [of ps qs] by blast

theorem groupedBySector_homomorphism_witness:
  "mset example_portfolio = mset (rev example_portfolio)
   \<and> map_of (groupedBySector example_portfolio) = map_of (groupedBySector (rev example_portfolio))
   \<and> map_of (groupedBySector (take 2 example_portfolio)) ''Financials''
       = Some \<lparr>summary.purchasePrice = 1500, summary.investment = 15000,
                summary.presentValue = 16000, summary.gainLoss = 1000\<rparr>
   \<and> map_of (groupedBySector (drop 2 example_portfolio)) ''Financials''
       = Some \<lparr>summary.purchasePrice = 900, summary.investment = 18000,
                summary.presentValue = 20000, summary.gainLoss = 2000\<rparr>
   \<and> map_of (groupedBySector (take 2 example_portfolio @ drop 2 example_portfolio)) ''Financials''
       = Some \<lparr>summary.purchasePrice = 2400, summary.investment = 33000,
                summary.presentValue = 36000, summary.gainLoss = 3000\<rparr>"
proof -
  have m: "mset example_portfolio = mset (rev example_portfolio)"
    by simp
  have a: "map_of (groupedBySector (take 2 example_portfolio)) ''Financials''
       = Some \<lparr>summary.purchasePrice = 1500, summary.investment = 15000,
                summary.presentValue = 16000, summary.gainLoss = 1000\<rparr>"
    by code_simp
  have b: "map_of (groupedBySector (drop 2 example_portfolio)) ''Financials''
       = Some \<lparr>summary.purchasePrice = 900, summary.investment = 18000,
                summary.presentValue = 20000, summary.gainLoss = 2000\<rparr>"
    by code_simp
  note h = groupedBySector_homomorphism
             [of "take 2 example_portfolio" "drop 2 example_portfolio" "''Financials''"
                 example_portfolio "rev example_portfolio"]
  from h m have p: "map_of (groupedBySector example_portfolio)
                      = map_of (groupedBySector (rev example_portfolio))"
    by blast
  have "merge_totals (map_of (groupedBySector (take 2 example_portfolio)) ''Financials'')
          (map_of (groupedBySector (drop 2 example_portfolio)) ''Financials'')
       = Some \<lparr>summary.purchasePrice = 2400, summary.investment = 33000,
                summary.presentValue = 36000, summary.gainLoss = 3000\<rparr>"
    unfolding a b by (simp add: plus_summary_def)
  with h [THEN conjunct1]
  have c: "map_of (groupedBySector (take 2 example_portfolio @ drop 2 example_portfolio))
                 ''Financials''
       = Some \<lparr>summary.purchasePrice = 2400, summary.investment = 33000,
                summary.presentValue = 36000, summary.gainLoss = 3000\<rparr>"
    by (rule trans)
  from m p a b c show ?thesis
    by (intro conjI)
qed

lemma reducer_same_aggregated_fields:
  "same_aggregated_fields a b \<Longrightarrow> reducer acc a = reducer acc b"
  by (simp add: same_aggregated_fields_def reducer_def)

lemma foldl_reducer_same_aggregated_fields:
  "list_all2 same_aggregated_fields xs ys \<Longrightarrow> foldl reducer acc xs = foldl reducer acc ys"
proof (induction xs ys arbitrary: acc rule: list_all2_induct)
  case Nil
  show ?case by simp
next
  case (Cons a xs b ys)
  then show ?case by (simp add: reducer_same_aggregated_fields)
qed

text \<open>
  Claim C10. The aggregation depends only on the fields \<open>sector\<close>, \<open>purchasePrice\<close>,
  \<open>investment\<close>, \<open>presentValue\<close> and \<open>gainLoss\<close>: two input lists that agree
  pointwise on these five give equal outputs, whatever their \<open>name\<close>, \<open>exchange\<close>,
  \<open>quantity\<close>, \<open>cmp\<close>, \<open>peRatio\<close> and \<open>latestEarnings\<close> are.
\<close>

theorem groupedBySector_depends_on_five_fields:
  fixes xs :: "('n::{zero,plus}, 'x) StockData list" and ys :: "('n, 'y) StockData list"
  assumes "list_all2 same_aggregated_fields xs ys"
  shows "groupedBySector xs = groupedBySector ys"
  using assms by (simp add: groupedBySector_def foldl_reducer_same_aggregated_fields)

theorem groupedBySector_depends_on_five_fields_witness:
  "list_all2 same_aggregated_fields example_portfolio
     (map (\<lambda>h. h\<lparr>StockData.name := ''?'', exchange := ''BSE'', quantity := 0, cmp := 1,
                  peRatio := ''17'', latestEarnings := ''42''\<rparr>) example_portfolio)
   \<and> groupedBySector example_portfolio
       = groupedBySector
           (map (\<lambda>h. h\<lparr>StockData.name := ''?'', exchange := ''BSE'', quantity := 0, cmp := 1,
                        peRatio := ''17'', latestEarnings := ''42''\<rparr>) example_portfolio)"
proof -
  have a: "list_all2 same_aggregated_fields example_portfolio
     (map (\<lambda>h. h\<lparr>StockData.name := ''?'', exchange := ''BSE'', quantity := 0, cmp := 1,
                  peRatio := ''17'', latestEarnings := ''42''\<rparr>) example_portfolio)"
    by (simp add: example_portfolio_def example_holding_def same_aggregated_fields_def)
  from groupedBySector_depends_on_five_fields [OF a] a show ?thesis by simp
qed

section \<open>Polling\<close>

lemma mount_created:
  "mount (created t0) =
     \<lparr>lifecycle = Mounted, data = [], interval = Some 1, awaiting = 1, unhandled = [],
      clock = t0, timers = [\<lparr>timer_id = 1, handler = FetchAndSet, delay = 15000,
                              due = t0 + 15000\<rparr>],
      next_timer_id = 2,
      calls = [(t0, FetchPortfolio), (t0, SetInterval FetchAndSet 15000 1)]\<rparr>"
  by (simp add: mount_def created_def effect_def fetchAndSet_def fetchPortfolio_def
        setInterval_def record_call_def Let_def)

text \<open>
  Claim C4. When the awaited fetch rejects, the holdings are left as they were and no
  call is made at all (in particular \<^verbatim>\<open>setData\<close> is not called); the rejection of an
  outstanding fetch ends up among the unhandled ones.
\<close>

theorem fetch_failure_unhandled:
  "data (step (Settle (Rejected reason)) w) = data w
   \<and> calls (step (Settle (Rejected reason)) w) = calls w
   \<and> (0 < awaiting w \<longrightarrow>
        unhandled (step (Settle (Rejected reason)) w) = unhandled w @ [reason])"
  by (simp add: fetchAndSet_resume_def)

theorem fetch_failure_unhandled_witness:
  "0 < awaiting (mount (created 0 :: (int, string, string) world))
   \<and> unhandled (step (Settle (Rejected ''offline''))
                  (mount (created 0 :: (int, string, string) world))) = [''offline'']
   \<and> data (step (Settle (Rejected ''offline''))
             (mount (created 0 :: (int, string, string) world))) = []"
proof -
  have a: "0 < awaiting (mount (created 0 :: (int, string, string) world))"
    by (simp add: mount_created)
  from fetch_failure_unhandled [of "''offline''" "mount (created 0 :: (int, string, string) world)"] a
  show ?thesis by (simp add: mount_created)
qed

text \<open>
  Claim C5. When the awaited fetch of a mounted component fulfils, the holdings become
  exactly the list it delivered, whatever they were before, through a single call of
  \<^verbatim>\<open>setData\<close> with that list.
\<close>

theorem successful_poll_replaces_data:
  assumes "lifecycle w = Mounted" and "0 < awaiting w"
  shows "data (step (Settle (Fulfilled portfolio)) w) = portfolio
       \<and> calls (step (Settle (Fulfilled portfolio)) w) = calls w @ [(clock w, SetData portfolio)]"
  using assms by (simp add: fetchAndSet_resume_def setData_def record_call_def Let_def)

theorem successful_poll_replaces_data_witness:
  "lifecycle (mount (created 0 :: (int, string, string) world)) = Mounted
   \<and> 0 < awaiting (mount (created 0 :: (int, string, string) world))
   \<and> data (step (Settle (Fulfilled example_portfolio))
             (mount (created 0 :: (int, string, string) world))) = example_portfolio"
proof -
  have l: "lifecycle (mount (created 0 :: (int, string, string) world)) = Mounted"
    and a: "0 < awaiting (mount (created 0 :: (int, string, string) world))"
    by (simp_all add: mount_created)
  from successful_poll_replaces_data [OF l a, of example_portfolio] l a
  show ?thesis by simp
qed

subsection \<open>Before the first fetch resolves\<close>

lemma fetchAndSet_data: "data (fetchAndSet w) = data w"
  by (simp add: fetchAndSet_def fetchPortfolio_def record_call_def)

lemma callbacks_data: "data (foldl (\<lambda>w t. run_callback (handler t) w) w ts) = data w"
proof (induction ts arbitrary: w)
  case Nil
  show ?case by simp
next
  case (Cons t ts)
  show ?case
    by (cases "handler t") (simp add: Cons.IH fetchAndSet_data)
qed

lemma tick_data: "data (tick w) = data w"
  by (simp add: tick_def Let_def callbacks_data)

lemma elapse_data: "data ((tick ^^ ms) w) = data w"
  by (induction ms) (simp_all add: tick_data)

lemma step_keeps_empty:
  assumes "\<not> resolves e" and "data w = []"
  shows "data (step e w) = []"
proof (cases e)
  case Mount
  with assms(2) show ?thesis
    by (simp add: mount_def effect_def setInterval_def record_call_def Let_def fetchAndSet_data
          fetchAndSet_def fetchPortfolio_def)
next
  case Unmount
  with assms(2) show ?thesis
    by (simp add: unmount_def cleanup_def clearInterval_def record_call_def split: option.splits)
next
  case (Elapse ms)
  with assms(2) show ?thesis by (simp add: elapse_data)
next
  case (Settle outcome)
  with assms show ?thesis
    by (cases outcome) (simp_all add: fetchAndSet_resume_def)
qed

lemma run_keeps_empty:
  "list_all (\<lambda>e. \<not> resolves e) es \<Longrightarrow> data w = [] \<Longrightarrow> data (run es w) = []"
  unfolding run_def by (induction es arbitrary: w) (simp_all add: step_keeps_empty)

text \<open>
  Claim C9. On the empty list of holdings the aggregation output is the empty object
  and the chart data is the empty list; and the empty list is the component's state when
  it mounts and for as long as no fetch has fulfilled.
\<close>

theorem empty_before_first_fetch:
  fixes es :: "('n::{zero,plus}, 'x, 'e) event list"
  shows "groupedBySector ([] :: ('n, 'x) StockData list) = []
       \<and> chartData ([] :: ('n, 'x) StockData list) = []
       \<and> data (mount (created t0 :: ('n, 'x, 'e) world)) = []
       \<and> (list_all (\<lambda>e. \<not> resolves e) es \<longrightarrow> data (run es (created t0)) = [])"
proof -
  have "list_all (\<lambda>e. \<not> resolves e) es \<longrightarrow> data (run es (created t0)) = []"
    by (simp add: run_keeps_empty created_def)
  then show ?thesis
    by (simp add: groupedBySector_def chartData_def Object_entries_def mount_created)
qed

theorem empty_before_first_fetch_witness:
  "list_all (\<lambda>e. \<not> resolves e)
     [Mount, Elapse 3, Settle (Rejected ''offline'') :: (int, string, string) event]
   \<and> chartData (data (run [Mount, Elapse 3, Settle (Rejected ''offline'')]
                        (created 0 :: (int, string, string) world))) = []"
proof -
  have a: "list_all (\<lambda>e. \<not> resolves e)
     [Mount, Elapse 3, Settle (Rejected ''offline'') :: (int, string, string) event]"
    by simp
  from empty_before_first_fetch
         [of 0 "[Mount, Elapse 3, Settle (Rejected ''offline'') :: (int, string, string) event]"] a
  show ?thesis by simp
qed

subsection \<open>The refresh timer\<close>




























end
